theory Spec2Isabelle
  imports Complex_Main
begin

section \<open>JavaScript numbers\<close>

text \<open>
  The calculator computes with JavaScript numbers. A finite number is modelled by a real
  and arithmetic on finite numbers is exact: the rounding of IEEE-754 doubles is not
  modelled, and a decimal literal of the source (\<open>0.3048\<close>, \<open>0.453592\<close>, \<open>18.5\<close>) stands
  for the real it denotes. The three values that are not finite are kept, since the
  control flow of the source depends on them: a division by zero yields an infinity or
  \<open>NaN\<close>, every comparison with \<open>NaN\<close> is false, and \<open>NaN\<close> is falsy and refused by
  \<open>z.number()\<close>. Zero carries no sign: the only divisor the program forms that can be
  zero is a square, which is never the negative zero. Where a statement below gives a
  computed value as a real, the value is that of exact arithmetic, and a double may differ
  from it in the last place; the comparisons and the thresholds of the source are exact on
  doubles as they are on reals.
\<close>

datatype number = Finite real | PosInfinity | NegInfinity | NaN

text \<open>The sign of a number, as a real; \<open>NaN\<close> and zero have sign 0.\<close>

fun js_sign :: "number \<Rightarrow> real" where
  "js_sign (Finite x) = sgn x"
| "js_sign PosInfinity = 1"
| "js_sign NegInfinity = - 1"
| "js_sign NaN = 0"

text \<open>The infinity of a given sign; sign 0 arises from \<open>0 * Infinity\<close> and gives \<open>NaN\<close>.\<close>

definition js_infinity :: "real \<Rightarrow> number" where
  "js_infinity s = (if s = 0 then NaN else if 0 < s then PosInfinity else NegInfinity)"

text \<open>The operator \<open>*\<close>.\<close>

fun js_times :: "number \<Rightarrow> number \<Rightarrow> number" where
  "js_times (Finite x) (Finite y) = Finite (x * y)"
| "js_times NaN b = NaN"
| "js_times a NaN = NaN"
| "js_times a b = js_infinity (js_sign a * js_sign b)"

text \<open>
  The operator \<open>/\<close>. A finite number divided by zero is an infinity of the sign of the
  numerator, and \<open>0 / 0\<close> is \<open>NaN\<close>; a finite number divided by an infinity is zero; an
  infinity divided by an infinity is \<open>NaN\<close>.
\<close>

fun js_divide :: "number \<Rightarrow> number \<Rightarrow> number" where
  "js_divide (Finite x) (Finite y) = (if y = 0 then js_infinity (sgn x) else Finite (x / y))"
| "js_divide NaN b = NaN"
| "js_divide a NaN = NaN"
| "js_divide (Finite x) b = Finite 0"
| "js_divide a (Finite y) = js_infinity (js_sign a * (if y < 0 then - 1 else 1))"
| "js_divide a b = NaN"

text \<open>The operator \<open><\<close>: false whenever an operand is \<open>NaN\<close>.\<close>

fun js_less :: "number \<Rightarrow> number \<Rightarrow> bool" where
  "js_less (Finite x) (Finite y) = (x < y)"
| "js_less NaN b = False"
| "js_less a NaN = False"
| "js_less NegInfinity NegInfinity = False"
| "js_less NegInfinity b = True"
| "js_less a NegInfinity = False"
| "js_less PosInfinity b = False"
| "js_less a PosInfinity = True"

text \<open>The operators \<open>></\<close>, \<open><=\<close> and \<open>>=\<close>; each is false whenever an operand is \<open>NaN\<close>.\<close>

definition js_greater :: "number \<Rightarrow> number \<Rightarrow> bool" where
  "js_greater a b = js_less b a"

definition js_less_eq :: "number \<Rightarrow> number \<Rightarrow> bool" where
  "js_less_eq a b = (a \<noteq> NaN \<and> b \<noteq> NaN \<and> (js_less a b \<or> a = b))"

definition js_greater_eq :: "number \<Rightarrow> number \<Rightarrow> bool" where
  "js_greater_eq a b = js_less_eq b a"

text \<open>Truthiness of a number: \<open>0\<close> and \<open>NaN\<close> are falsy.\<close>

definition truthy :: "number \<Rightarrow> bool" where
  "truthy a = (a \<noteq> Finite 0 \<and> a \<noteq> NaN)"

section \<open>The form's data and the result\<close>

text \<open>
  \<open>BMICalculation\<close> is the type of the form's values, \<open>z.infer<typeof bmiCalculationSchema>\<close>.
  The record is polymorphic in its numeric fields: validated data holds numbers
  (\<open>number BMICalculation\<close>), while the values the form holds before validation may be
  \<open>undefined\<close> (\<open>number option BMICalculation\<close>, with \<open>None\<close> for \<open>undefined\<close>), as the
  form's default values are. The units are strings at run time.
\<close>

record 'n BMICalculation =
  age :: 'n
  height :: 'n
  weight :: 'n
  heightUnit :: string
  weightUnit :: string

text \<open>\<open>Omit<BMIResult, 'bmi'>\<close>, what \<open>getBMICategory\<close> returns, and \<open>BMIResult\<close> itself.\<close>

record categoryInfo =
  category :: string
  description :: string
  color :: string

record BMIResult = categoryInfo +
  bmi :: number

section \<open>The calculator (client/src/pages/bmi-calculator.tsx)\<close>

definition convertHeight :: "number \<Rightarrow> string \<Rightarrow> number" where
  "convertHeight v unit =
     (if unit = ''ft'' then js_times v (Finite 0.3048)
      else js_divide v (Finite 100))"

definition convertWeight :: "number \<Rightarrow> string \<Rightarrow> number" where
  "convertWeight v unit =
     (if unit = ''lbs'' then js_times v (Finite 0.453592)
      else v)"

definition getBMICategory :: "number \<Rightarrow> categoryInfo" where
  "getBMICategory b =
     (if js_less b (Finite 18.5) then
        \<lparr>category = ''Underweight'',
         description = ''You may need to gain weight. Consider consulting a healthcare provider.'',
         color = ''text-blue-600''\<rparr>
      else if js_greater_eq b (Finite 18.5) \<and> js_less b (Finite 25) then
        \<lparr>category = ''Normal Weight'',
         description = ''You have a healthy body weight. Keep up the good work!'',
         color = ''text-green-600''\<rparr>
      else if js_greater_eq b (Finite 25) \<and> js_less b (Finite 30) then
        \<lparr>category = ''Overweight'',
         description = ''You may want to consider losing some weight for better health.'',
         color = ''text-yellow-600''\<rparr>
      else
        \<lparr>category = ''Obese'',
         description = ''Consider consulting a healthcare provider for a weight management plan.'',
         color = ''text-red-600''\<rparr>)"

text \<open>The object \<open>{ bmi, ...categoryInfo }\<close> that both paths store.\<close>

definition spread :: "number \<Rightarrow> categoryInfo \<Rightarrow> BMIResult" where
  "spread b info =
     \<lparr>category = category info, description = description info, color = color info, bmi = b\<rparr>"

text \<open>
  The component's state is \<open>result\<close>, of type \<open>BMIResult | null\<close>; a handler takes the
  state and returns the state after its \<open>setResult\<close>.
\<close>

definition onSubmit :: "number BMICalculation \<Rightarrow> BMIResult option \<Rightarrow> BMIResult option" where
  "onSubmit data result =
     (let heightInMeters = convertHeight (height data) (heightUnit data);
          weightInKg = convertWeight (weight data) (weightUnit data);
          bmi = js_divide weightInKg (js_times heightInMeters heightInMeters);
          categoryInfo = getBMICategory bmi
      in Some (spread bmi categoryInfo))"

text \<open>
  The real-time calculation effect, run on the watched values of the form. Its guard is
  \<open>age && height && weight && age >= 1 && age <= 120 && height > 0 && weight > 0\<close>; a
  field that is \<open>undefined\<close> is falsy, so the guard fails on it before any comparison is
  made. When the guard fails the state is left as it was.
\<close>

definition useEffect :: "number option BMICalculation \<Rightarrow> BMIResult option \<Rightarrow> BMIResult option" where
  "useEffect watchedValues result =
     (case (age watchedValues, height watchedValues, weight watchedValues) of
        (Some a, Some h, Some w) \<Rightarrow>
          if truthy a \<and> truthy h \<and> truthy w \<and>
             js_greater_eq a (Finite 1) \<and> js_less_eq a (Finite 120) \<and>
             js_greater h (Finite 0) \<and> js_greater w (Finite 0)
          then
            (let heightInMeters = convertHeight h (heightUnit watchedValues);
                 weightInKg = convertWeight w (weightUnit watchedValues);
                 bmi = js_divide weightInKg (js_times heightInMeters heightInMeters);
                 categoryInfo = getBMICategory bmi
             in Some (spread bmi categoryInfo))
          else result
      | _ \<Rightarrow> result)"

section \<open>The validation schema (shared/schema.ts)\<close>

text \<open>
  The schema is built from the combinators of the zod library, which is not part of the
  repository; the combinators are modelled by what they do on the values a form can hold.
  A schema maps a value to the list of its issues, each issue being its message; the value
  is accepted when the list is empty. \<open>z.number()\<close> refuses \<open>undefined\<close> and \<open>NaN\<close> before
  any check runs; \<open>.min(v, msg)\<close> raises \<open>msg\<close> when the value is less than \<open>v\<close> and
  \<open>.max(v, msg)\<close> when it is greater than \<open>v\<close>, and every check runs. The messages
  of the checks are those of the source; the messages the library words itself (a missing
  value, \<open>NaN\<close>, a string outside an enumeration) are abridged.
\<close>

datatype check = Min real string | Max real string

fun run_check :: "number \<Rightarrow> check \<Rightarrow> string list" where
  "run_check a (Min v msg) = (if js_less a (Finite v) then [msg] else [])"
| "run_check a (Max v msg) = (if js_greater a (Finite v) then [msg] else [])"

definition z_number :: "check list \<Rightarrow> number option \<Rightarrow> string list" where
  "z_number checks v =
     (case v of
        None \<Rightarrow> [''Required'']
      | Some a \<Rightarrow> if a = NaN then [''Expected number, received nan'']
                  else concat (map (run_check a) checks))"

definition z_enum :: "string list \<Rightarrow> string \<Rightarrow> string list" where
  "z_enum options s = (if s \<in> set options then [] else [''Invalid enum value''])"

text \<open>The five fields of \<open>bmiCalculationSchema\<close>, in the order of the source.\<close>

definition ageSchema :: "number option \<Rightarrow> string list" where
  "ageSchema = z_number [Min 1 ''Age must be at least 1'', Max 120 ''Age must be less than 120'']"

definition heightSchema :: "number option \<Rightarrow> string list" where
  "heightSchema = z_number [Min 0.1 ''Height must be greater than 0'']"

definition weightSchema :: "number option \<Rightarrow> string list" where
  "weightSchema = z_number [Min 0.1 ''Weight must be greater than 0'']"

definition heightUnitSchema :: "string \<Rightarrow> string list" where
  "heightUnitSchema = z_enum [''cm'', ''ft'']"

definition weightUnitSchema :: "string \<Rightarrow> string list" where
  "weightUnitSchema = z_enum [''kg'', ''lbs'']"

text \<open>
  \<open>z.object\<close> collects the issues of all fields; parsing yields the issues (\<open>Inl\<close>) or,
  when there is none, the validated data (\<open>Inr\<close>).
\<close>

definition bmiCalculationSchema ::
  "number option BMICalculation \<Rightarrow> string list + number BMICalculation" where
  "bmiCalculationSchema v =
     (let issues = ageSchema (age v) @ heightSchema (height v) @ weightSchema (weight v) @
                   heightUnitSchema (heightUnit v) @ weightUnitSchema (weightUnit v)
      in case (issues, age v, height v, weight v) of
           ([], Some a, Some h, Some w) \<Rightarrow>
             Inr \<lparr>age = a, height = h, weight = w,
                  heightUnit = heightUnit v, weightUnit = weightUnit v\<rparr>
         | _ \<Rightarrow> Inl issues)"

text \<open>
  \<open>form.handleSubmit(onSubmit)\<close>: the form's resolver is the schema, and \<open>onSubmit\<close> runs
  on the validated data only; when validation fails the state is left as it was.
\<close>

definition handleSubmit :: "number option BMICalculation \<Rightarrow> BMIResult option \<Rightarrow> BMIResult option" where
  "handleSubmit v result =
     (case bmiCalculationSchema v of Inl issues \<Rightarrow> result | Inr data \<Rightarrow> onSubmit data result)"

text \<open>\<open>Number.isInteger\<close>, to state what an integer age is.\<close>

definition isInteger :: "number \<Rightarrow> bool" where
  "isInteger a = (case a of Finite x \<Rightarrow> of_int \<lfloor>x\<rfloor> = x | _ \<Rightarrow> False)"

section \<open>Basic facts\<close>

lemma js_compare_Finite:
  "js_greater (Finite x) (Finite y) \<longleftrightarrow> y < x"
  "js_less_eq (Finite x) (Finite y) \<longleftrightarrow> x \<le> y"
  "js_greater_eq (Finite x) (Finite y) \<longleftrightarrow> y \<le> x"
  by (auto simp: js_greater_def js_less_eq_def js_greater_eq_def)

text \<open>
  The classifier is total: it tests no more than comparisons, and a value that fails all
  of them, which only \<open>NaN\<close> does, falls through to the last branch.
\<close>

lemma getBMICategory_total:
  "category (getBMICategory b) \<in> {''Underweight'', ''Normal Weight'', ''Overweight'', ''Obese''}"
  by (simp add: getBMICategory_def)

lemma getBMICategory_not_finite:
  "category (getBMICategory NegInfinity) = ''Underweight''"
  "category (getBMICategory PosInfinity) = ''Obese''"
  "category (getBMICategory NaN) = ''Obese''"
  by (simp_all add: getBMICategory_def js_greater_eq_def js_less_eq_def)

text \<open>Without validation a height of zero gives an infinite BMI, or \<open>NaN\<close> for no weight.\<close>

lemma onSubmit_height_zero:
  "0 < w \<Longrightarrow> onSubmit \<lparr>age = a, height = Finite 0, weight = Finite w,
       heightUnit = ''cm'', weightUnit = ''kg''\<rparr> st =
     Some (spread PosInfinity (getBMICategory PosInfinity))"
  "onSubmit \<lparr>age = a, height = Finite 0, weight = Finite 0,
       heightUnit = ''cm'', weightUnit = ''kg''\<rparr> st =
     Some (spread NaN (getBMICategory NaN))"
  by (simp_all add: onSubmit_def Let_def convertHeight_def convertWeight_def js_infinity_def)

text \<open>What each field of the schema accepts.\<close>

lemma z_number_Min_iff:
  "z_number [Min m msg] v = [] \<longleftrightarrow>
     (\<exists>a. v = Some a \<and> a \<noteq> NaN \<and> \<not> js_less a (Finite m))"
  by (cases v) (simp_all add: z_number_def)

lemma heightSchema_Finite_iff: "heightSchema (Some (Finite r)) = [] \<longleftrightarrow> 0.1 \<le> r"
  by (auto simp: heightSchema_def z_number_Min_iff)

lemma weightSchema_Finite_iff: "weightSchema (Some (Finite r)) = [] \<longleftrightarrow> 0.1 \<le> r"
  by (auto simp: weightSchema_def z_number_Min_iff)

lemma unitSchema_iff:
  "heightUnitSchema u = [] \<longleftrightarrow> u = ''cm'' \<or> u = ''ft''"
  "weightUnitSchema u = [] \<longleftrightarrow> u = ''kg'' \<or> u = ''lbs''"
  by (simp_all add: heightUnitSchema_def weightUnitSchema_def z_enum_def)

lemma z_number_None: "z_number cs None \<noteq> []"
  by (simp add: z_number_def)

text \<open>The object schema succeeds exactly when every field is accepted.\<close>

lemma bmiCalculationSchema_success_iff:
  "(\<exists>d. bmiCalculationSchema v = Inr d) \<longleftrightarrow>
     ageSchema (age v) = [] \<and> heightSchema (height v) = [] \<and> weightSchema (weight v) = [] \<and>
     heightUnitSchema (heightUnit v) = [] \<and> weightUnitSchema (weightUnit v) = []"
proof -
  have none: "ageSchema None \<noteq> []" "heightSchema None \<noteq> []" "weightSchema None \<noteq> []"
    by (simp_all add: ageSchema_def heightSchema_def weightSchema_def z_number_None)
  show ?thesis
    using none
    by (cases "age v"; cases "height v"; cases "weight v")
       (auto simp: bmiCalculationSchema_def Let_def split: list.splits)
qed

lemma ageSchema_Some_iff:
  "ageSchema (Some a) = [] \<longleftrightarrow> (\<exists>r. a = Finite r \<and> 1 \<le> r \<and> r \<le> 120)"
  by (cases a) (auto simp: ageSchema_def z_number_def js_greater_def)

text \<open>An age outside the range, or none, keeps the real-time effect from computing.\<close>

lemma useEffect_age_gate:
  "useEffect (v\<lparr>age := None\<rparr>) st = st"
  "r < 1 \<or> 120 < r \<Longrightarrow> useEffect (v\<lparr>age := Some (Finite r)\<rparr>) st = st"
  by (auto simp: useEffect_def js_compare_Finite split: option.splits)

section \<open>Classification\<close>

text \<open>
  Claim C1. For every BMI value \<open>b\<close>, a real number, \<open>getBMICategory\<close> returns Underweight
  exactly when \<open>b < 18.5\<close>, Normal Weight exactly when \<open>18.5 \<le> b < 25\<close>, Overweight exactly
  when \<open>25 \<le> b < 30\<close> and Obese exactly when \<open>30 \<le> b\<close>; each of the boundary values 18.5,
  25 and 30 falls in the higher category.
\<close>

theorem getBMICategory_ranges:
  "(category (getBMICategory (Finite b)) = ''Underweight'' \<longleftrightarrow> b < 18.5) \<and>
   (category (getBMICategory (Finite b)) = ''Normal Weight'' \<longleftrightarrow> 18.5 \<le> b \<and> b < 25) \<and>
   (category (getBMICategory (Finite b)) = ''Overweight'' \<longleftrightarrow> 25 \<le> b \<and> b < 30) \<and>
   (category (getBMICategory (Finite b)) = ''Obese'' \<longleftrightarrow> 30 \<le> b) \<and>
   category (getBMICategory (Finite 18.5)) = ''Normal Weight'' \<and>
   category (getBMICategory (Finite 25)) = ''Overweight'' \<and>
   category (getBMICategory (Finite 30)) = ''Obese''"
  by (simp add: getBMICategory_def js_compare_Finite)

section \<open>Unit conversion\<close>

text \<open>
  Claim C3. The height conversion returns \<open>v / 100\<close> for centimeters and \<open>v * 0.3048\<close> for
  feet; the weight conversion returns \<open>v * 0.453592\<close> for pounds and \<open>v\<close> itself for
  kilograms. This holds for every finite \<open>v\<close>, the positive ones among them.
\<close>

theorem convert_units:
  "convertHeight (Finite v) ''cm'' = Finite (v / 100) \<and>
   convertHeight (Finite v) ''ft'' = Finite (v * 0.3048) \<and>
   convertWeight (Finite v) ''lbs'' = Finite (v * 0.453592) \<and>
   convertWeight (Finite v) ''kg'' = Finite v"
  by (simp add: convertHeight_def convertWeight_def)

text \<open>
  Claim C10. A unit string outside the enumerations raises no error: the converters are
  total, every unit other than \<open>ft\<close> is taken for centimeters (the value is divided by
  100) and every unit other than \<open>lbs\<close> for kilograms (the value is returned unchanged).
\<close>

theorem convert_unknown_unit:
  "(u \<noteq> ''ft'' \<longrightarrow> convertHeight a u = js_divide a (Finite 100) \<and>
                    convertHeight (Finite v) u = Finite (v / 100)) \<and>
   (u \<noteq> ''lbs'' \<longrightarrow> convertWeight a u = a)"
  by (simp add: convertHeight_def convertWeight_def)

theorem convert_unknown_unit_witness:
  "''inches'' \<noteq> ''ft'' \<and> convertHeight (Finite 70) ''inches'' = Finite (70 / 100) \<and>
   ''stone'' \<noteq> ''lbs'' \<and> convertWeight (Finite 11) ''stone'' = Finite 11"
  using convert_unknown_unit [of "''inches''" "Finite 70" 70]
    convert_unknown_unit [of "''stone''" "Finite 11" 11]
  by simp

section \<open>The computation\<close>


text \<open>
  Claim C7. For a height of 100 centimeters and a weight of 18.5 kilograms the computed
  BMI is exactly 18.5 and the category is Normal Weight, not Underweight. (The doubles
  agree with the reals here: \<open>100 / 100\<close>, \<open>1 * 1\<close> and \<open>18.5 / 1\<close> are exact.)
\<close>

theorem boundary_scenario:
  "onSubmit \<lparr>age = a, height = Finite 100, weight = Finite 18.5,
             heightUnit = ''cm'', weightUnit = ''kg''\<rparr> st =
     Some \<lparr>category = ''Normal Weight'',
           description = ''You have a healthy body weight. Keep up the good work!'',
           color = ''text-green-600'', bmi = Finite 18.5\<rparr> \<and>
   ''Normal Weight'' \<noteq> ''Underweight''"
  by (simp add: onSubmit_def convertHeight_def convertWeight_def getBMICategory_def spread_def
      js_compare_Finite)

text \<open>
  Claim C6. Age does not influence the result. Two measurements that differ in age only
  get the same BMI, category, advisory text and color from \<open>onSubmit\<close>, whatever the ages
  are, and from the real-time effect, whose guard reads the age, for any two ages of the
  valid range.
\<close>

theorem age_not_used:
  assumes "1 \<le> r" and "r \<le> 120" and "1 \<le> r'" and "r' \<le> 120"
  shows "onSubmit (d\<lparr>age := a\<rparr>) st = onSubmit (d\<lparr>age := a'\<rparr>) st \<and>
         useEffect (v\<lparr>age := Some (Finite r)\<rparr>) st = useEffect (v\<lparr>age := Some (Finite r')\<rparr>) st"
  using assms
  by (auto simp: onSubmit_def useEffect_def truthy_def js_compare_Finite split: option.splits)

theorem age_not_used_witness:
  "(1::real) \<le> 25 \<and> (25::real) \<le> 120 \<and> (1::real) \<le> 70 \<and> (70::real) \<le> 120 \<and>
   onSubmit \<lparr>age = Finite 25, height = Finite 180, weight = Finite 75,
             heightUnit = ''cm'', weightUnit = ''kg''\<rparr> None =
   onSubmit \<lparr>age = Finite 70, height = Finite 180, weight = Finite 75,
             heightUnit = ''cm'', weightUnit = ''kg''\<rparr> None \<and>
   useEffect \<lparr>age = Some (Finite 25), height = Some (Finite 180), weight = Some (Finite 75),
              heightUnit = ''cm'', weightUnit = ''kg''\<rparr> None =
   useEffect \<lparr>age = Some (Finite 70), height = Some (Finite 180), weight = Some (Finite 75),
              heightUnit = ''cm'', weightUnit = ''kg''\<rparr> None"
  using age_not_used [where r = 25 and r' = 70 and a = "Finite 25" and a' = "Finite 70"
      and st = None
      and d = "\<lparr>age = Finite 25, height = Finite 180, weight = Finite 75,
        heightUnit = ''cm'', weightUnit = ''kg''\<rparr>"
      and v = "\<lparr>age = Some (Finite 25), height = Some (Finite 180), weight = Some (Finite 75),
        heightUnit = ''cm'', weightUnit = ''kg''\<rparr>"]
  by simp

text \<open>
  Claim C9. The computation is deterministic and has no hidden state: what \<open>onSubmit\<close>
  stores depends on the measurement only, not on the state it finds, so that a second
  invocation on the same measurement stores the same BMI, category, description and
  color again; the same holds for the real-time effect.
\<close>

theorem stateless:
  "onSubmit d st = onSubmit d st' \<and>
   onSubmit d (onSubmit d st) = onSubmit d st \<and>
   useEffect v (useEffect v st) = useEffect v st"
  by (auto simp: onSubmit_def useEffect_def split: option.splits)

section \<open>Validation\<close>

text \<open>
  Claim C5, as the code has it. The schema accepts an age exactly when it is a number
  from 1 to 120 inclusive, integer or not: 120 is accepted, 0 and 121 are rejected, and
  a missing age, \<open>NaN\<close> and the infinities are rejected.
\<close>

theorem ageSchema_accepts_iff:
  "(ageSchema v = [] \<longleftrightarrow> (\<exists>r. v = Some (Finite r) \<and> 1 \<le> r \<and> r \<le> 120)) \<and>
   ageSchema (Some (Finite 120)) = [] \<and>
   ageSchema (Some (Finite 0)) = [''Age must be at least 1''] \<and>
   ageSchema (Some (Finite 121)) = [''Age must be less than 120'']"
proof -
  have "ageSchema v = [] \<longleftrightarrow> (\<exists>r. v = Some (Finite r) \<and> 1 \<le> r \<and> r \<le> 120)"
  proof (cases v)
    case None
    then show ?thesis by (simp add: ageSchema_def z_number_None)
  next
    case (Some a)
    then show ?thesis by (simp add: ageSchema_Some_iff)
  qed
  moreover have "ageSchema (Some (Finite 120)) = []"
    by (simp add: ageSchema_Some_iff)
  moreover have "ageSchema (Some (Finite 0)) = [''Age must be at least 1'']"
    "ageSchema (Some (Finite 121)) = [''Age must be less than 120'']"
    by (simp_all add: ageSchema_def z_number_def js_greater_def)
  ultimately show ?thesis by blast
qed

text \<open>
  The schema has no integer check: the age 1.5 is accepted, by the field and by the
  object schema.
\<close>

theorem age_non_integer_accepted:
  "ageSchema (Some (Finite 1.5)) = [] \<and> \<not> isInteger (Finite 1.5) \<and>
   bmiCalculationSchema \<lparr>age = Some (Finite 1.5), height = Some (Finite 170),
      weight = Some (Finite 70), heightUnit = ''cm'', weightUnit = ''kg''\<rparr> =
     Inr \<lparr>age = Finite 1.5, height = Finite 170, weight = Finite 70,
          heightUnit = ''cm'', weightUnit = ''kg''\<rparr>"
  by (simp add: bmiCalculationSchema_def ageSchema_def heightSchema_def weightSchema_def
       heightUnitSchema_def weightUnitSchema_def z_number_def z_enum_def js_greater_def
       isInteger_def)

text \<open>
  Claim C4 at the height 0.05. The value is strictly positive, yet the schema rejects it,
  with the message that the height must be greater than 0: the bound the schema checks is
  0.1. Submitting the form leaves the result unset, while the real-time effect, whose
  guard is \<open>height > 0\<close>, computes a result for the same values. The weight has the same
  bound.
\<close>

theorem small_positive_height_rejected:
  "(0::real) < 0.05 \<and>
   heightSchema (Some (Finite 0.05)) = [''Height must be greater than 0''] \<and>
   weightSchema (Some (Finite 0.05)) = [''Weight must be greater than 0''] \<and>
   bmiCalculationSchema \<lparr>age = Some (Finite 30), height = Some (Finite 0.05),
      weight = Some (Finite 70), heightUnit = ''cm'', weightUnit = ''kg''\<rparr> =
     Inl [''Height must be greater than 0''] \<and>
   handleSubmit \<lparr>age = Some (Finite 30), height = Some (Finite 0.05),
      weight = Some (Finite 70), heightUnit = ''cm'', weightUnit = ''kg''\<rparr> None = None \<and>
   useEffect \<lparr>age = Some (Finite 30), height = Some (Finite 0.05),
      weight = Some (Finite 70), heightUnit = ''cm'', weightUnit = ''kg''\<rparr> None =
     Some \<lparr>category = ''Obese'',
           description = ''Consider consulting a healthcare provider for a weight management plan.'',
           color = ''text-red-600'', bmi = Finite 280000000\<rparr>"
  by (simp add: handleSubmit_def bmiCalculationSchema_def ageSchema_def heightSchema_def
       weightSchema_def heightUnitSchema_def weightUnitSchema_def z_number_def z_enum_def
       js_greater_def useEffect_def truthy_def js_compare_Finite convertHeight_def
       convertWeight_def getBMICategory_def spread_def)

end
